theory Spec2Isabelle
  imports Complex_Main
begin

section \<open>DashTrack: the calculation and aggregation core of \<open>app.js\<close>\<close>

text \<open>
  \<open>src/app.js\<close> holds two generations of the application one after the other: lines
  1--858 (IndexedDB storage, 24-hour \<open>HH:MM\<close> time inputs, \<open>MPG = 26\<close>, weeks anchored
  on Thursday) and lines 860--2179 (Supabase storage, 12-hour text times, \<open>MPG = 30.9\<close>,
  weeks anchored on Saturday). \<open>src/unnamed/part_002\<close> is a third copy that agrees with
  the first one in everything modelled here. The definitions below embed the
  calculation and aggregation functions of the second generation, and those of the first
  one that differ; every definition names the lines it embeds.

  Conventions of the embedding.
  \<^item> A JavaScript Number is a binary64 value, represented by the rational
    (\<^typ>\<open>rat\<close>) it is equal to; every arithmetic result is rounded to the nearest
    such value (\<open>fl\<close> below). \<open>NaN\<close> is \<^term>\<open>None\<close> in an \<^typ>\<open>rat option\<close>.
    Infinite results, the sign of zero and the shorter significand of values below
    \<open>2^-1022\<close> are not modelled.
  \<^item> A string is a \<^typ>\<open>string\<close>, one \<^typ>\<open>char\<close> per code unit in the range
    \<open>0..255\<close>.
  \<^item> The text of a numeric form field or display element is represented by the decimal
    number that \<open>parseFloat\<close> reads in it, before that number is rounded to a Number
    (\<^term>\<open>None\<close> when \<open>parseFloat\<close> gives \<open>NaN\<close>: an empty field or the placeholder
    dash).
  \<^item> A \<open>Date\<close> is the number of its calendar day, counted from 1970-01-01; the time
    zone is UTC.
\<close>

subsection \<open>Characters and strings\<close>

text \<open>\<open>\d\<close> of a regular expression without the \<open>u\<close> flag: the ten ASCII digits.\<close>

definition isDigit :: "char \<Rightarrow> bool" where
  "isDigit c \<longleftrightarrow> c \<in> set ''0123456789''"

text \<open>
  \<open>\s\<close>, and what \<open>String.prototype.trim\<close> strips: white space and line terminators.
  In the range of \<^typ>\<open>char\<close> these are TAB, LF, VT, FF, CR, SPACE and NBSP.
\<close>

definition isWhiteSpace :: "char \<Rightarrow> bool" where
  "isWhiteSpace c \<longleftrightarrow>
     c \<in> {CHR 0x09, CHR 0x0A, CHR 0x0B, CHR 0x0C, CHR 0x0D, CHR 0x20, CHR 0xA0}"

text \<open>
  \<open>toUpperCase\<close> on one character. The ASCII letters are mapped as JavaScript maps
  them. A character from 128 to 255 is left as it is: JavaScript maps some of them (to
  capital letters outside ASCII, the sharp s to \<open>SS\<close>), none to a character that the
  pattern below accepts, so the match is the same.
\<close>

definition upperChar :: "char \<Rightarrow> char" where
  "upperChar c =
     (case map_of (zip ''abcdefghijklmnopqrstuvwxyz'' ''ABCDEFGHIJKLMNOPQRSTUVWXYZ'') c of
        Some u \<Rightarrow> u
      | None \<Rightarrow> c)"

definition toUpperCase :: "string \<Rightarrow> string" where
  "toUpperCase s = map upperChar s"

definition trim :: "string \<Rightarrow> string" where
  "trim s = rev (dropWhile isWhiteSpace (rev (dropWhile isWhiteSpace s)))"

definition digitVal :: "char \<Rightarrow> nat" where
  "digitVal c = of_char c - 48"

text \<open>\<open>parseInt(g, 10)\<close> for a group \<open>g\<close> matched by \<open>\d{1,2}\<close> or \<open>\d{2}\<close>.\<close>

definition parseInt10 :: "string \<Rightarrow> int" where
  "parseInt10 ds = int (foldl (\<lambda>n c. 10 * n + digitVal c) 0 ds)"

subsection \<open>Time and duration (lines 1124--1201)\<close>

text \<open>
  \<open>cleanTime.match(/^(\d{1,2}):(\d{2})\s*(AM|PM)$/)\<close>, read from left to right. The
  first group is greedy and a colon must follow it, so it is the whole run of digits at
  the start and that run has one or two digits. Two digits follow the colon. After any
  white space the rest of the string is exactly \<open>AM\<close> or \<open>PM\<close> (\<open>$\<close> without the \<open>m\<close>
  flag is the end of the input). The result holds the three groups.
\<close>

definition match_time :: "string \<Rightarrow> (string \<times> string \<times> string) option" where
  "match_time s =
     (let h = takeWhile isDigit s; r = dropWhile isDigit s in
      if length h < 1 \<or> 2 < length h then None
      else (case r of
              c # m1 # m2 # r2 \<Rightarrow>
                if c = CHR '':'' \<and> isDigit m1 \<and> isDigit m2 then
                  (let p = dropWhile isWhiteSpace r2 in
                   if p = ''AM'' \<or> p = ''PM'' then Some (h, [m1, m2], p) else None)
                else None
            | _ \<Rightarrow> None))"

text \<open>\<open>parseTimeToMinutes\<close> (lines 1145--1170); \<^term>\<open>None\<close> is its \<open>null\<close>.\<close>

definition parseTimeToMinutes :: "string \<Rightarrow> int option" where
  "parseTimeToMinutes timeStr =
     (if timeStr = [] then None
      else
        let cleanTime = toUpperCase (trim timeStr) in
        case match_time cleanTime of
          None \<Rightarrow> None
        | Some (g1, g2, period) \<Rightarrow>
            let hours = parseInt10 g1; minutes = parseInt10 g2 in
            if hours < 1 \<or> hours > 12 \<or> minutes < 0 \<or> minutes > 59 then None
            else
              let hours' = (if period = ''PM'' \<and> hours \<noteq> 12 then hours + 12
                            else if period = ''AM'' \<and> hours = 12 then 0
                            else hours)
              in Some (hours' * 60 + minutes))"

text \<open>\<open>calculateTimeDifferenceMinutes\<close> of the 12-hour generation (lines 1124--1138).\<close>

definition calculateTimeDifferenceMinutes :: "string \<Rightarrow> string \<Rightarrow> int" where
  "calculateTimeDifferenceMinutes start end' =
     (if start = [] \<or> end' = [] then 0
      else
        case (parseTimeToMinutes start, parseTimeToMinutes end') of
          (Some startMinutes, Some endMinutes) \<Rightarrow>
            (let duration = endMinutes - startMinutes in
             if duration < 0 then duration + 24 * 60 else duration)
        | _ \<Rightarrow> 0)"

text \<open>
  \<open>getTotalBreakMinutes\<close> (lines 1188--1201) over the rows of the breaks container,
  each the pair of the values of its \<open>.break-start\<close> and \<open>.break-end\<close> inputs.
\<close>

fun getTotalBreakMinutes :: "(string \<times> string) list \<Rightarrow> int" where
  "getTotalBreakMinutes [] = 0"
| "getTotalBreakMinutes ((start, end') # rows) =
     (if start \<noteq> [] \<and> end' \<noteq> [] then calculateTimeDifferenceMinutes start end' else 0)
     + getTotalBreakMinutes rows"

text \<open>
  \<open>calculateTimeDifferenceMinutes\<close> of the first generation (lines 138--149), whose
  arguments are values of time inputs (\<open>HH:MM\<close>). \<open>split_on c\<close> is \<open>split\<close> at every
  \<open>c\<close>. The built-in \<open>Number\<close> is a parameter: \<open>Number s\<close> is the finite value of the
  conversion of \<open>s\<close>, \<^term>\<open>None\<close> when it is \<open>NaN\<close> or infinite. The result
  \<^term>\<open>None\<close> is a result that is not a finite number: this function has no parse check.
\<close>

fun split_on :: "char \<Rightarrow> string \<Rightarrow> string list" where
  "split_on c [] = [[]]"
| "split_on c (x # xs) =
     (if x = c then [] # split_on c xs
      else (case split_on c xs of
              piece # pieces \<Rightarrow> (x # piece) # pieces
            | [] \<Rightarrow> [[x]]))"

definition clockMinutes :: "(string \<Rightarrow> rat option) \<Rightarrow> string \<Rightarrow> rat option" where
  "clockMinutes Number t =
     (case split_on (CHR '':'') t of
        h # m # rest \<Rightarrow>
          (case (Number h, Number m) of
             (Some sh, Some sm) \<Rightarrow> Some (sh * 60 + sm)
           | _ \<Rightarrow> None)
      | _ \<Rightarrow> None)"

definition calculateTimeDifferenceMinutes_hhmm ::
  "(string \<Rightarrow> rat option) \<Rightarrow> string \<Rightarrow> string \<Rightarrow> rat option" where
  "calculateTimeDifferenceMinutes_hhmm Number start end' =
     (if start = [] \<or> end' = [] then Some 0
      else
        case (clockMinutes Number start, clockMinutes Number end') of
          (Some startMinutes, Some endMinutes) \<Rightarrow>
            Some ((if endMinutes < startMinutes then endMinutes + 24 * 60 else endMinutes)
                  - startMinutes)
        | _ \<Rightarrow> None)"

subsection \<open>Numbers and their display\<close>

text \<open>
  Rounding to binary64. \<open>ilog2 x\<close> is the exponent of the power of two at or below a
  positive \<open>x\<close>. \<open>fl x\<close> keeps 53 significant bits of \<open>x\<close>: the nearest such value, and
  of two nearest ones the one with the even significand.
\<close>

function bitlen :: "int \<Rightarrow> int" where
  "bitlen n = (if n \<le> 0 then 0 else 1 + bitlen (n div 2))"
  by pat_completeness auto
termination
  by (relation "measure nat") auto

function pow2n :: "int \<Rightarrow> rat" where
  "pow2n k = (if k \<le> 0 then 1 else 2 * pow2n (k - 1))"
  by pat_completeness auto
termination
  by (relation "measure nat") auto

definition ilog2 :: "rat \<Rightarrow> int" where
  "ilog2 x = (if 1 \<le> x then bitlen \<lfloor>x\<rfloor> - 1 else - bitlen (\<lceil>1 / x\<rceil> - 1))"

definition pow2 :: "int \<Rightarrow> rat" where
  "pow2 e = (if 0 \<le> e then pow2n e else 1 / pow2n (- e))"

definition roundEven :: "rat \<Rightarrow> int" where
  "roundEven r =
     (let n = \<lfloor>r\<rfloor>; d = r - of_int n
      in if d < 1 / 2 then n else if 1 / 2 < d then n + 1 else if even n then n else n + 1)"

definition fl :: "rat \<Rightarrow> rat" where
  "fl x =
     (if x = 0 then 0
      else
        let e = ilog2 \<bar>x\<bar> - 52;
            m = roundEven (\<bar>x\<bar> / pow2 e)
        in (if x < 0 then - (of_int m * pow2 e) else of_int m * pow2 e))"

text \<open>
  \<open>fl\<close> has no infinite result. A decimal number \<open>inRange\<close> is far below the largest
  Number: a difference, a quotient by \<open>MPG\<close> or by 26 and a product of Numbers read from
  such decimals are finite in the code, where \<open>fl\<close> is its rounding.
\<close>

definition inRange :: "rat \<Rightarrow> bool" where
  "inRange d \<longleftrightarrow> \<bar>d\<bar> \<le> 10 ^ 100"

text \<open>\<open>parseFloat\<close> of a text, given by the decimal number in it: the nearest Number.\<close>

definition parseFloat :: "rat option \<Rightarrow> rat option" where
  "parseFloat t = (case t of None \<Rightarrow> None | Some d \<Rightarrow> Some (fl d))"

text \<open>
  \<open>x.toFixed(2)\<close> of a Number \<open>x\<close>, as the decimal number its text denotes: of the
  multiples of \<open>1/100\<close> nearest to \<open>|x|\<close> the larger one, with the sign of \<open>x\<close>. (From
  \<open>10^21\<close> on JavaScript prints the Number itself with an exponent; the text denotes the
  same decimal number.)
\<close>

definition toFixed2 :: "rat \<Rightarrow> rat" where
  "toFixed2 x =
     (let n = \<lfloor>\<bar>x\<bar> * 100 + 1 / 2\<rfloor>
      in if x < 0 then - (of_int n / 100) else of_int n / 100)"

text \<open>\<open>Math.round\<close> of a Number: ties go up.\<close>

definition Math_round :: "rat \<Rightarrow> int" where
  "Math_round x = \<lfloor>x + 1 / 2\<rfloor>"

text \<open>\<open>v || 0\<close> for a parse result \<open>v\<close>: \<open>NaN\<close> and \<open>0\<close> both give \<open>0\<close>.\<close>

definition orZero :: "rat option \<Rightarrow> rat" where
  "orZero v = (case v of None \<Rightarrow> 0 | Some x \<Rightarrow> x)"

text \<open>The characters of \<open>x.toFixed(2)\<close>, for the cells of the entries table.\<close>

definition digitChar :: "nat \<Rightarrow> char" where
  "digitChar d = ''0123456789'' ! (d mod 10)"

fun decimal :: "nat \<Rightarrow> string" where
  "decimal n = (if n < 10 then [digitChar n] else decimal (n div 10) @ [digitChar (n mod 10)])"

definition toFixed2_text :: "rat \<Rightarrow> string" where
  "toFixed2_text x =
     (let n = nat \<lfloor>\<bar>x\<bar> * 100 + 1 / 2\<rfloor>
      in (if x < 0 then ''-'' else [])
         @ decimal (n div 100) @ ''.'' @ [digitChar (n mod 100 div 10), digitChar (n mod 10)])"

subsection \<open>Constants (lines 35--39 and 910--914)\<close>

text \<open>
  \<open>MPG\<close> of the second generation (line 912) and the default price (lines 39 and 914):
  the Numbers of the literals \<open>30.9\<close> and \<open>3.272\<close>. The first generation declares
  \<open>MPG = 26\<close> (line 37) and divides by the literal \<open>26\<close> (line 233).
\<close>

definition MPG :: rat where
  "MPG = fl (309 / 10)"

definition DEFAULT_GAS_PRICE :: rat where
  "DEFAULT_GAS_PRICE = fl (3272 / 1000)"

subsection \<open>The form, live recalculation and submission (lines 1251--1330, 1561--1668)\<close>

text \<open>
  The state of the form: the input fields the user edits, the rows of the breaks
  container, the display elements that \<open>recalculate\<close> writes and the submit handler reads
  back, and the flag \<open>isSettingUpEdit\<close>. A duration element shows \<open>formatMinutes\<close> of a
  number of minutes or the dash.
\<close>

record form =
  dateInput :: string
  startTimeInput :: string
  endTimeInput :: string
  netEarningsInput :: "rat option"
  milesStartInput :: "rat option"
  milesEndInput :: "rat option"
  breaksContainer :: "(string \<times> string) list"
  shiftDurationEl :: "int option"
  workingDurationEl :: "int option"
  milesDrivenEl :: "rat option"
  gallonsUsedInput :: "rat option"
  dollarsPerGalInput :: "rat option"
  gasCostEl :: "rat option"
  grossEarningsEl :: "rat option"
  hourlyRateEl :: "rat option"
  isSettingUpEdit :: bool

text \<open>\<open>validateTimeInput\<close> (lines 1251--1257).\<close>

definition validateTimeInput :: "string \<Rightarrow> bool" where
  "validateTimeInput v \<longleftrightarrow> (if trim v = [] then True else parseTimeToMinutes v \<noteq> None)"

text \<open>
  \<open>recalculate\<close> (lines 1262--1330). Its first argument is the Number \<open>MPG\<close>, which
  the code reads from the constant. \<open>miles\<close> and \<open>gallons\<close> are \<open>NaN\<close> unless both
  odometer fields parse; \<open>gasCost\<close> stays \<open>0\<close> unless \<open>gallons\<close> and the price parse.
\<close>

definition recalculate :: "rat \<Rightarrow> form \<Rightarrow> form" where
  "recalculate mpg f =
     (let shiftMinutes = calculateTimeDifferenceMinutes (startTimeInput f) (endTimeInput f);
          breakMinutes = getTotalBreakMinutes (breaksContainer f);
          workingMinutes = max (shiftMinutes - breakMinutes) 0;
          miles = (case (parseFloat (milesStartInput f), parseFloat (milesEndInput f)) of
                     (Some milesStart, Some milesEnd) \<Rightarrow> Some (fl (milesEnd - milesStart))
                   | _ \<Rightarrow> None);
          gallons = (case miles of Some m \<Rightarrow> Some (fl (m / mpg)) | None \<Rightarrow> None);
          pricePerGal = parseFloat (dollarsPerGalInput f);
          gasCost = (case (gallons, pricePerGal) of
                       (Some g, Some p) \<Rightarrow> fl (g * p)
                     | _ \<Rightarrow> 0);
          grossPay = parseFloat (netEarningsInput f)
      in f\<lparr>shiftDurationEl := (if shiftMinutes > 0 then Some shiftMinutes else None),
           workingDurationEl := (if workingMinutes > 0 then Some workingMinutes else None),
           milesDrivenEl := (case miles of Some m \<Rightarrow> Some (of_int (Math_round m)) | None \<Rightarrow> None),
           gallonsUsedInput := (case gallons of Some g \<Rightarrow> Some (toFixed2 g) | None \<Rightarrow> None),
           gasCostEl := (case (gallons, pricePerGal) of
                           (Some g, Some p) \<Rightarrow> Some (toFixed2 gasCost)
                         | _ \<Rightarrow> None),
           grossEarningsEl := (case grossPay of
                                 Some gp \<Rightarrow> Some (toFixed2 (fl (gp - gasCost)))
                               | None \<Rightarrow> None),
           hourlyRateEl := (case grossPay of
                              Some gp \<Rightarrow>
                                if workingMinutes > 0
                                then Some (toFixed2 (fl (fl (gp - gasCost)
                                                         / fl (of_int workingMinutes / 60))))
                                else None
                            | None \<Rightarrow> None)\<rparr>)"

text \<open>
  The odometer and cost fields in the first generation. Its \<open>recalculate\<close> (lines
  220--246) differs from the one above in two places: the miles element shows
  \<open>miles.toFixed(2)\<close>, and the divisor is the literal \<open>26\<close>. Its submit handler (lines
  331--334) parses the four elements back like the one below. \<open>deriveCosts_idb\<close> is the
  two in sequence, for the four fields of the record that do not depend on the times.
\<close>

record costs =
  costMilesDriven :: rat
  costGallons :: rat
  costPricePerGal :: rat
  costGasCost :: rat

definition recalculate_costs_idb :: "form \<Rightarrow> form" where
  "recalculate_costs_idb f =
     (let miles = (case (parseFloat (milesStartInput f), parseFloat (milesEndInput f)) of
                     (Some milesStart, Some milesEnd) \<Rightarrow> Some (fl (milesEnd - milesStart))
                   | _ \<Rightarrow> None);
          gallons = (case miles of Some m \<Rightarrow> Some (fl (m / 26)) | None \<Rightarrow> None);
          pricePerGal = parseFloat (dollarsPerGalInput f);
          gasCost = (case (gallons, pricePerGal) of
                       (Some g, Some p) \<Rightarrow> fl (g * p)
                     | _ \<Rightarrow> 0)
      in f\<lparr>milesDrivenEl := (case miles of Some m \<Rightarrow> Some (toFixed2 m) | None \<Rightarrow> None),
           gallonsUsedInput := (case gallons of Some g \<Rightarrow> Some (toFixed2 g) | None \<Rightarrow> None),
           gasCostEl := (case (gallons, pricePerGal) of
                           (Some g, Some p) \<Rightarrow> Some (toFixed2 gasCost)
                         | _ \<Rightarrow> None)\<rparr>)"

definition submitted_costs_idb :: "form \<Rightarrow> costs" where
  "submitted_costs_idb f =
     \<lparr>costMilesDriven = orZero (parseFloat (milesDrivenEl f)),
      costGallons = orZero (parseFloat (gallonsUsedInput f)),
      costPricePerGal = orZero (parseFloat (dollarsPerGalInput f)),
      costGasCost = orZero (parseFloat (gasCostEl f))\<rparr>"

definition deriveCosts_idb :: "form \<Rightarrow> costs" where
  "deriveCosts_idb f = submitted_costs_idb (recalculate_costs_idb f)"

text \<open>The record the handler builds (lines 1611--1630).\<close>

record entry =
  date :: string
  start :: string
  end' :: string
  shiftMinutes :: int
  breakMinutes :: int
  workingMinutes :: int
  net :: rat
  gross :: rat
  milesStart :: rat
  milesEnd :: rat
  milesDriven :: rat
  gallons :: rat
  pricePerGal :: rat
  gasCost :: rat
  hourly :: rat
  breaks :: "(string \<times> string) list"

text \<open>
  The submit handler (lines 1561--1630). It returns without building a record while an
  edit is being set up, and after the alert when a time field is not valid; otherwise it
  builds the record from the input fields and from the text of the display elements.
\<close>

datatype submit_error = StillSettingUpEdit | InvalidTime

definition breaksOf :: "(string \<times> string) list \<Rightarrow> (string \<times> string) list" where
  "breaksOf rows = filter (\<lambda>(bStart, bEnd). bStart \<noteq> [] \<and> bEnd \<noteq> []) rows"

definition submitHandler :: "form \<Rightarrow> submit_error + entry" where
  "submitHandler f =
     (if isSettingUpEdit f then Inl StillSettingUpEdit
      else if \<not> validateTimeInput (startTimeInput f) \<or> \<not> validateTimeInput (endTimeInput f)
      then Inl InvalidTime
      else
        let grossPay = orZero (parseFloat (netEarningsInput f));
            gasCost' = orZero (parseFloat (gasCostEl f));
            netProfit = fl (grossPay - gasCost');
            shiftMinutes' = calculateTimeDifferenceMinutes (startTimeInput f) (endTimeInput f);
            breakMinutes' = getTotalBreakMinutes (breaksContainer f);
            workingMinutes' = max (shiftMinutes' - breakMinutes') 0
        in Inr \<lparr>date = dateInput f,
                start = startTimeInput f,
                end' = endTimeInput f,
                shiftMinutes = shiftMinutes',
                breakMinutes = breakMinutes',
                workingMinutes = workingMinutes',
                net = netProfit,
                gross = grossPay,
                milesStart = orZero (parseFloat (milesStartInput f)),
                milesEnd = orZero (parseFloat (milesEndInput f)),
                milesDriven = orZero (parseFloat (milesDrivenEl f)),
                gallons = orZero (parseFloat (gallonsUsedInput f)),
                pricePerGal = orZero (parseFloat (dollarsPerGalInput f)),
                gasCost = gasCost',
                hourly = (if workingMinutes' > 0
                          then fl (netProfit / fl (of_int workingMinutes' / 60)) else 0),
                breaks = breaksOf (breaksContainer f)\<rparr>)"

text \<open>
  Every input event runs \<open>recalculate\<close> (lines 1512--1517, 1493--1494), so the handler
  reads display elements that \<open>recalculate\<close> wrote for the inputs it submits. The
  derivation of a record from the inputs is the two in sequence.
\<close>

definition deriveShift :: "rat \<Rightarrow> form \<Rightarrow> submit_error + entry" where
  "deriveShift mpg f = submitHandler (recalculate mpg f)"

text \<open>
  \<open>loadEntries\<close> (line 2138) and \<open>resetForm\<close> (line 1447) write the default price into
  the price element as \<open>'$' + DEFAULT_GAS_PRICE.toFixed(2)\<close>; the dollar sign is removed
  again before the text is parsed (lines 1304, 1593).
\<close>

definition setDefaultPrice :: "form \<Rightarrow> form" where
  "setDefaultPrice f = f\<lparr>dollarsPerGalInput := Some (toFixed2 DEFAULT_GAS_PRICE)\<rparr>"

text \<open>The cell \<open>$${entry.hourly.toFixed(2)}\<close> of a row of \<open>renderEntries\<close> (line 1703).\<close>

definition hourlyCell :: "entry \<Rightarrow> string" where
  "hourlyCell e = ''$'' @ toFixed2_text (hourly e)"

subsection \<open>Dates\<close>

text \<open>
  The built-in \<open>Date\<close> on whole days of the proleptic Gregorian calendar.
  \<open>days_from_civil y m d\<close> is the day number of year \<open>y\<close>, month \<open>m\<close> (from 1) and day
  \<open>d\<close>; \<open>civil_from_days\<close> is its inverse.
\<close>

definition days_from_civil :: "int \<Rightarrow> int \<Rightarrow> int \<Rightarrow> int" where
  "days_from_civil y m d =
     (let y' = (if m \<le> 2 then y - 1 else y);
          era = y' div 400;
          yoe = y' mod 400;
          doy = (153 * (if m > 2 then m - 3 else m + 9) + 2) div 5 + d - 1;
          doe = yoe * 365 + yoe div 4 - yoe div 100 + doy
      in era * 146097 + doe - 719468)"

definition civil_from_days :: "int \<Rightarrow> int \<times> int \<times> int" where
  "civil_from_days z =
     (let z' = z + 719468;
          era = z' div 146097;
          doe = z' mod 146097;
          yoe = (doe - doe div 1460 + doe div 36524 - doe div 146096) div 365;
          doy = doe - (365 * yoe + yoe div 4 - yoe div 100);
          mp = (5 * doy + 2) div 153;
          d = doy - (153 * mp + 2) div 5 + 1;
          m = (if mp < 10 then mp + 3 else mp - 9);
          y = yoe + era * 400 + (if m \<le> 2 then 1 else 0)
      in (y, m, d))"

definition getFullYear :: "int \<Rightarrow> int" where
  "getFullYear dt = fst (civil_from_days dt)"

text \<open>\<open>getDay\<close>: 0 is Sunday; 1970-01-01 was a Thursday.\<close>

definition getDay :: "int \<Rightarrow> int" where
  "getDay dt = (dt + 4) mod 7"

text \<open>
  \<open>new Date(entry.date)\<close> for the value of a date input, which is empty or
  \<open>YYYY-MM-DD\<close> with a month from 1 to 12 and a day that month has. A day up to 31
  that the month lacks runs over into the next month. \<^term>\<open>None\<close> is the invalid
  date, whose week number and year are \<open>NaN\<close>. Other texts that \<open>Date.parse\<close> might
  read are not values of a date input; they are \<^term>\<open>None\<close> here. The local getters
  that the code applies to the result give the same day in the time zone UTC only.
\<close>

definition new_Date :: "string \<Rightarrow> int option" where
  "new_Date s =
     (case s of
        [y1, y2, y3, y4, s1, m1, m2, s2, d1, d2] \<Rightarrow>
          if list_all isDigit [y1, y2, y3, y4, m1, m2, d1, d2] \<and> s1 = CHR ''-'' \<and> s2 = CHR ''-''
          then
            let y = parseInt10 [y1, y2, y3, y4]; m = parseInt10 [m1, m2]; d = parseInt10 [d1, d2]
            in if 1 \<le> m \<and> m \<le> 12 \<and> 1 \<le> d \<and> d \<le> 31 then Some (days_from_civil y m d) else None
          else None
      | _ \<Rightarrow> None)"

subsection \<open>Week numbers and summaries (lines 465--518 and 1739--1805)\<close>

text \<open>
  \<open>getWeekNumber\<close> of the second generation (lines 1739--1747): move to the Saturday of
  the week that starts on Sunday, then count weeks from January 1 of that Saturday's
  year.
\<close>

definition getWeekNumber :: "int \<Rightarrow> int" where
  "getWeekNumber dt =
     (let dayNum = getDay dt;
          date' = dt + 6 - dayNum;
          yearStart = days_from_civil (getFullYear date') 1 1;
          weekNo = \<lceil>(rat_of_int (date' - yearStart) + 1) / 7\<rceil>
      in weekNo)"

text \<open>
  \<open>getWeekNumber\<close> of the first generation (lines 465--473): move to the Thursday of
  the week that starts on Monday.
\<close>

definition getWeekNumber_thu :: "int \<Rightarrow> int" where
  "getWeekNumber_thu dt =
     (let dayNum = (if getDay dt = 0 then 7 else getDay dt);
          date' = dt + 4 - dayNum;
          yearStart = days_from_civil (getFullYear date') 1 1;
          weekNo = \<lceil>(rat_of_int (date' - yearStart) + 1) / 7\<rceil>
      in weekNo)"

text \<open>
  The test \<open>entryWeek === currentWeek && entryYear === currentYear\<close> of
  \<open>updateSummaries\<close> (lines 1775--1778 and 499--502), for a week-number function
  \<open>week\<close>. \<open>now\<close> is the current day. With an invalid entry date both comparisons are
  with \<open>NaN\<close> and fail.
\<close>

definition dateInCurrentWeek :: "(int \<Rightarrow> int) \<Rightarrow> int \<Rightarrow> string \<Rightarrow> bool" where
  "dateInCurrentWeek week now d =
     (let currentWeek = week now; currentYear = getFullYear now in
      case new_Date d of
        None \<Rightarrow> False
      | Some entryDate \<Rightarrow>
          (let entryWeek = week entryDate; entryYear = getFullYear entryDate
           in entryWeek = currentWeek \<and> entryYear = currentYear))"

definition inCurrentWeek :: "(int \<Rightarrow> int) \<Rightarrow> int \<Rightarrow> entry \<Rightarrow> bool" where
  "inCurrentWeek week now e = dateInCurrentWeek week now (date e)"

text \<open>
  The text of a summary element: the dash, one amount (\<open>$\<close> and \<open>toFixed(2)\<close>, second
  generation), the net and the gross amount (first generation), or \<open>$NaN\<close>, which is
  \<open>toFixed(2)\<close> of \<open>NaN\<close>.
\<close>

datatype summary_text = Dash | Amount rat | NetGross rat rat | AmountNaN

text \<open>\<open>let total = 0\<close> and \<open>total += x\<close> for each \<open>x\<close> in turn.\<close>

definition total :: "rat list \<Rightarrow> rat" where
  "total xs = foldl (\<lambda>t x. fl (t + x)) 0 xs"

record summaries =
  weekSummaryEl :: summary_text
  overallSummaryEl :: summary_text
  avgHourlySummaryEl :: summary_text

text \<open>\<open>updateSummaries\<close> of the second generation (lines 1752--1805).\<close>

definition updateSummaries :: "bool \<Rightarrow> entry list \<Rightarrow> int \<Rightarrow> summaries" where
  "updateSummaries showGrossValues entries now =
     (if length entries = 0 then
        \<lparr>weekSummaryEl = Dash, overallSummaryEl = Dash, avgHourlySummaryEl = Dash\<rparr>
      else
        let thisWeek = filter (inCurrentWeek getWeekNumber now) entries;
            weekNet = total (map net thisWeek);
            weekGross = total (map gross thisWeek);
            totalNet = total (map net entries);
            totalGross = total (map gross entries);
            totalMinutes = sum_list (map workingMinutes entries)
        in if showGrossValues then
             \<lparr>weekSummaryEl = Amount (toFixed2 weekGross),
              overallSummaryEl = Amount (toFixed2 totalGross),
              avgHourlySummaryEl =
                (if totalMinutes > 0
                 then Amount (toFixed2 (fl (totalGross / fl (of_int totalMinutes / 60))))
                 else Dash)\<rparr>
           else
             \<lparr>weekSummaryEl = Amount (toFixed2 weekNet),
              overallSummaryEl = Amount (toFixed2 totalNet),
              avgHourlySummaryEl =
                (if totalMinutes > 0
                 then Amount (toFixed2 (fl (totalNet / fl (of_int totalMinutes / 60))))
                 else Dash)\<rparr>)"


subsection \<open>Summaries over records that the handler did not build\<close>

text \<open>
  \<open>importFromJson\<close> pushes every object of the file's array whose date is new, and
  \<open>loadEntries\<close> takes what the storage holds, so the \<open>net\<close> and \<open>gross\<close> of a stored
  record can be any value of a JSON text, or be missing. \<open>JComposite\<close> is an array
  or an object. The date and the working minutes are kept as in a record of the handler:
  no value in them makes \<open>updateSummaries\<close> raise.
\<close>

datatype jsvalue = JNumber rat | JString string | JBool bool | JNull | JUndefined | JComposite

record stored =
  storedDate :: string
  storedNet :: jsvalue
  storedGross :: jsvalue
  storedWorkingMinutes :: int








subsection \<open>Backup and restore (lines 723--781 and 2020--2081)\<close>

text \<open>
  \<open>exportToJson\<close> (lines 2020--2039): no file is written for an empty collection.
  \<open>exportDate\<close> is the time of the export.
\<close>

record backup =
  exportDate :: string
  version :: string
  entries :: "entry list"

definition exportToJson :: "string \<Rightarrow> entry list \<Rightarrow> backup option" where
  "exportToJson now es =
     (if length es = 0 then None
      else Some \<lparr>exportDate = now, version = ''1.0'', entries = es\<rparr>)"

text \<open>
  What \<open>JSON.parse\<close> makes of the chosen file: it throws, or it gives an object whose
  \<open>entries\<close> property is an array of records or is not. \<open>readBackup b\<close> is
  \<open>JSON.parse\<close> of the text that \<open>JSON.stringify\<close> wrote for \<open>b\<close>: every field of a
  record is a finite Number or a string, which the two built-ins write and read back
  unchanged.
\<close>

datatype parsed_file = NotJson | Json "entry list option"

definition readBackup :: "backup \<Rightarrow> parsed_file" where
  "readBackup b = Json (Some (entries b))"

datatype alert = Imported nat | NothingNew | InvalidFormat | ParseFailed

text \<open>
  The loop of the second generation (lines 2059--2062): push, then \<open>await saveEntry\<close>.
  \<open>saveEntry e\<close> is the record as \<open>saveEntry\<close> (lines 957--1008) leaves it, after
  \<open>Object.assign\<close> with the stored row, or \<^term>\<open>None\<close> when it throws because every
  storage failed; the exception leaves the loop. The result says whether the loop ran to
  its end.
\<close>

fun importEach :: "(entry \<Rightarrow> entry option) \<Rightarrow> entry list \<Rightarrow> entry list \<Rightarrow> entry list \<times> bool" where
  "importEach saveEntry es [] = (es, True)"
| "importEach saveEntry es (newEntry # rest) =
     (case saveEntry newEntry of
        None \<Rightarrow> (es @ [newEntry], False)
      | Some stored \<Rightarrow> importEach saveEntry (es @ [stored]) rest)"

text \<open>\<open>importFromJson\<close> of the second generation (lines 2044--2081): the collection
  afterwards and the alert shown.\<close>

definition importFromJson ::
  "(entry \<Rightarrow> entry option) \<Rightarrow> entry list \<Rightarrow> parsed_file \<Rightarrow> entry list \<times> alert" where
  "importFromJson saveEntry es file =
     (case file of
        NotJson \<Rightarrow> (es, ParseFailed)
      | Json None \<Rightarrow> (es, InvalidFormat)
      | Json (Some incoming) \<Rightarrow>
          let existingDates = set (map date es);
              newEntries = filter (\<lambda>e. date e \<notin> existingDates) incoming
          in if length newEntries > 0 then
               (case importEach saveEntry es newEntries of
                  (es', True) \<Rightarrow> (es', Imported (length newEntries))
                | (es', False) \<Rightarrow> (es', ParseFailed))
             else (es, NothingNew))"

text \<open>
  \<open>importFromJson\<close> of the first generation (lines 747--781): the new records are
  appended in one assignment before \<open>saveEntries\<close> runs; \<open>saved\<close> says whether that
  call succeeded.
\<close>

definition importFromJson_idb :: "bool \<Rightarrow> entry list \<Rightarrow> parsed_file \<Rightarrow> entry list \<times> alert" where
  "importFromJson_idb saved es file =
     (case file of
        NotJson \<Rightarrow> (es, ParseFailed)
      | Json None \<Rightarrow> (es, InvalidFormat)
      | Json (Some incoming) \<Rightarrow>
          let existingDates = set (map date es);
              newEntries = filter (\<lambda>e. date e \<notin> existingDates) incoming
          in if length newEntries > 0 then
               (es @ newEntries, if saved then Imported (length newEntries) else ParseFailed)
             else (es, NothingNew))"

subsection \<open>The specification's reading of a time text\<close>

text \<open>
  The shape the specification gives for a time of day, word for word: optional white
  space around, an hour of one or two digits from 1 to 12, a colon, a minute of exactly
  two digits up to 59, and \<open>AM\<close> or \<open>PM\<close> in either case; \<open>12 AM\<close> is minute 0 and
  \<open>12 PM\<close> is minute 720. What may stand between the minute and \<open>AM\<close>/\<open>PM\<close> is the
  parameter \<open>gap\<close>: the specification writes \<open>H:MM AM/PM\<close>, with one space.
\<close>

definition blank :: "string \<Rightarrow> bool" where
  "blank ws \<longleftrightarrow> list_all isWhiteSpace ws"

definition one_space :: "string \<Rightarrow> bool" where
  "one_space g \<longleftrightarrow> g = '' ''"

definition clock24 :: "int \<Rightarrow> bool \<Rightarrow> int" where
  "clock24 h pm = (if pm then (if h = 12 then 12 else h + 12) else (if h = 12 then 0 else h))"

definition spec_time_text :: "(string \<Rightarrow> bool) \<Rightarrow> string \<Rightarrow> int \<Rightarrow> bool" where
  "spec_time_text gap s v \<longleftrightarrow>
     (\<exists>ws1 h m g p ws3.
        s = ws1 @ h @ '':'' @ m @ g @ p @ ws3 \<and> blank ws1 \<and> blank ws3 \<and> gap g \<and>
        list_all isDigit h \<and> (length h = 1 \<or> length h = 2) \<and>
        list_all isDigit m \<and> length m = 2 \<and>
        1 \<le> parseInt10 h \<and> parseInt10 h \<le> 12 \<and> parseInt10 m \<le> 59 \<and>
        (toUpperCase p = ''AM'' \<or> toUpperCase p = ''PM'') \<and>
        v = clock24 (parseInt10 h) (toUpperCase p = ''PM'') * 60 + parseInt10 m)"

text \<open>A text has the shape when it has it for some minute of the day.\<close>

definition spec_time_shape :: "(string \<Rightarrow> bool) \<Rightarrow> string \<Rightarrow> bool" where
  "spec_time_shape gap s \<longleftrightarrow> (\<exists>v. spec_time_text gap s v)"

subsection \<open>Example inputs\<close>

text \<open>A form with every field empty, no break row and every display element at the dash.\<close>

definition emptyForm :: form where
  "emptyForm =
     \<lparr>dateInput = [], startTimeInput = [], endTimeInput = [],
      netEarningsInput = None, milesStartInput = None, milesEndInput = None,
      breaksContainer = [], shiftDurationEl = None, workingDurationEl = None,
      milesDrivenEl = None, gallonsUsedInput = None, dollarsPerGalInput = None,
      gasCostEl = None, grossEarningsEl = None, hourlyRateEl = None,
      isSettingUpEdit = False\<rparr>"

text \<open>Odometer 1000 to 1100, gross pay 50, no times; the price field holds \<open>3.272\<close>.\<close>

definition odometerForm :: form where
  "odometerForm =
     emptyForm\<lparr>dateInput := ''2025-01-01'', netEarningsInput := Some 50,
               milesStartInput := Some 1000, milesEndInput := Some 1100,
               dollarsPerGalInput := Some (3272 / 1000)\<rparr>"

text \<open>
  Odometer 0 to 36.05 with the price element as \<open>loadEntries\<close> leaves it: the
  product of the gallons and the price is the Number just below 3.815.
\<close>

definition tieForm :: form where
  "tieForm =
     setDefaultPrice
       (emptyForm\<lparr>dateInput := ''2025-01-01'', netEarningsInput := Some 50,
                  milesStartInput := Some 0, milesEndInput := Some (3605 / 100)\<rparr>)"

text \<open>A shift from 9 to 5 with two complete breaks and one break row left half empty.\<close>

definition dayShiftForm :: form where
  "dayShiftForm =
     odometerForm\<lparr>startTimeInput := ''9:00 AM'', endTimeInput := ''5:00 pm'',
                  breaksContainer :=
                    [(''12:00 PM'', ''12:30 PM''), (''3:00 PM'', []), (''3:50PM'', ''4:05 PM'')]\<rparr>"

text \<open>A stored record of a given date.\<close>

definition entryOn :: "string \<Rightarrow> entry" where
  "entryOn d =
     \<lparr>date = d, start = ''9:00 AM'', end' = ''5:00 PM'', shiftMinutes = 480,
      breakMinutes = 0, workingMinutes = 480, net = 40, gross = 50, milesStart = 1000,
      milesEnd = 1100, milesDriven = 100, gallons = fl (324 / 100),
      pricePerGal = fl (327 / 100), gasCost = 10, hourly = 5, breaks = []\<rparr>"


section \<open>Properties\<close>

subsection \<open>Characters, trimming and the time pattern\<close>

lemma upperChar_cases: "upperChar c = c \<or> c \<in> set ''abcdefghijklmnopqrstuvwxyz''"
  by (simp add: upperChar_def)

lemma lower_not_special:
  "c \<in> set ''abcdefghijklmnopqrstuvwxyz'' \<Longrightarrow> \<not> isDigit c \<and> \<not> isWhiteSpace c \<and> c \<noteq> CHR '':''"
  by (auto simp: isDigit_def isWhiteSpace_def)

lemma upper_not_special:
  "c \<in> set ''abcdefghijklmnopqrstuvwxyz'' \<Longrightarrow>
     \<not> isDigit (upperChar c) \<and> \<not> isWhiteSpace (upperChar c) \<and> upperChar c \<noteq> CHR '':''"
  by (auto simp: isDigit_def isWhiteSpace_def upperChar_def)

lemma upperChar_fix:
  "isDigit (upperChar c) \<or> isWhiteSpace (upperChar c) \<or> upperChar c = CHR '':'' \<Longrightarrow> upperChar c = c"
  using upperChar_cases[of c] upper_not_special[of c] by blast

lemma upperChar_id: "isDigit c \<or> isWhiteSpace c \<or> c = CHR '':'' \<Longrightarrow> upperChar c = c"
  using upperChar_cases[of c] lower_not_special[of c] by blast

lemma digit_not_space: "isDigit c \<Longrightarrow> \<not> isWhiteSpace c"
  by (auto simp: isDigit_def isWhiteSpace_def)

lemma toUpperCase_fix:
  "toUpperCase xs = ys \<Longrightarrow> list_all (\<lambda>c. isDigit c \<or> isWhiteSpace c \<or> c = CHR '':'') ys \<Longrightarrow> xs = ys"
proof (induction xs arbitrary: ys)
  case Nil
  then show ?case by (simp add: toUpperCase_def)
next
  case (Cons x xs)
  then obtain y ys' where ys: "ys = y # ys'" "upperChar x = y" "toUpperCase xs = ys'"
    by (auto simp: toUpperCase_def)
  with Cons.prems have "upperChar x = x" by (auto intro: upperChar_fix)
  moreover have "xs = ys'" using Cons.IH[OF ys(3)] Cons.prems ys by simp
  ultimately show ?case using ys by simp
qed

lemma toUpperCase_id:
  "list_all (\<lambda>c. isDigit c \<or> isWhiteSpace c \<or> c = CHR '':'') xs \<Longrightarrow> toUpperCase xs = xs"
  by (induction xs) (auto simp: toUpperCase_def upperChar_id)

lemma toUpperCase_append: "toUpperCase (xs @ ys) = toUpperCase xs @ toUpperCase ys"
  by (simp add: toUpperCase_def)

lemma trim_decomp: "\<exists>a b. s = a @ trim s @ b \<and> blank a \<and> blank b"
proof -
  define t where "t = dropWhile isWhiteSpace s"
  define a where "a = takeWhile isWhiteSpace s"
  define b where "b = rev (takeWhile isWhiteSpace (rev t))"
  have 1: "s = a @ t" by (simp add: a_def t_def)
  have "rev (takeWhile isWhiteSpace (rev t) @ dropWhile isWhiteSpace (rev t)) = rev (rev t)"
    by (simp only: takeWhile_dropWhile_id)
  then have "rev (dropWhile isWhiteSpace (rev t)) @ b = t"
    by (simp only: rev_append rev_rev_ident b_def)
  then have 2: "t = trim s @ b"
    by (simp only: trim_def t_def)
  have 3: "blank a"
    by (auto simp: a_def blank_def list_all_iff dest: set_takeWhileD)
  have 4: "blank b"
    by (auto simp: b_def blank_def list_all_iff dest: set_takeWhileD)
  from 2 have "a @ t = a @ trim s @ b" by (rule arg_cong)
  with 1 have "s = a @ trim s @ b" by (rule trans)
  with 3 4 show ?thesis by blast
qed

lemma trim_core:
  assumes "blank a" "blank b" "core \<noteq> []" "\<not> isWhiteSpace (hd core)" "\<not> isWhiteSpace (last core)"
  shows "trim (a @ core @ b) = core"
proof -
  have "dropWhile isWhiteSpace (a @ core @ b) = core @ b"
    using assms by (cases core) (auto simp: blank_def list_all_iff dropWhile_append)
  moreover have "dropWhile isWhiteSpace (rev b @ rev core) = rev core"
    using assms by (cases core rule: rev_cases) (auto simp: blank_def list_all_iff dropWhile_append)
  ultimately show ?thesis by (simp add: trim_def)
qed

lemma match_time_Some:
  assumes "match_time u = Some (h, m, p)"
  shows "\<exists>g. u = h @ '':'' @ m @ g @ p \<and> list_all isDigit h \<and> (length h = 1 \<or> length h = 2) \<and>
             list_all isDigit m \<and> length m = 2 \<and> blank g \<and> (p = ''AM'' \<or> p = ''PM'')"
proof -
  from assms obtain c m1 m2 r2 where
    r: "dropWhile isDigit u = c # m1 # m2 # r2" and h: "h = takeWhile isDigit u"
    and len: "\<not> (length h < 1 \<or> 2 < length h)"
    and c: "c = CHR '':''" "isDigit m1" "isDigit m2" and m: "m = [m1, m2]"
    and p: "p = dropWhile isWhiteSpace r2" "p = ''AM'' \<or> p = ''PM''"
    by (auto simp: match_time_def Let_def split: if_splits list.splits)
  have "u = h @ dropWhile isDigit u" using h by simp
  moreover have "r2 = takeWhile isWhiteSpace r2 @ p" using p by simp
  ultimately have A: "u = h @ '':'' @ m @ takeWhile isWhiteSpace r2 @ p"
    using r c m by simp
  have B: "list_all isDigit h" using h by (auto simp: list_all_iff dest: set_takeWhileD)
  have C: "blank (takeWhile isWhiteSpace r2)"
    by (auto simp: blank_def list_all_iff dest: set_takeWhileD)
  have D: "length h = 1 \<or> length h = 2" using len by arith
  have E: "list_all isDigit m" "length m = 2" using m c by simp_all
  show ?thesis
    by (rule exI[of _ "takeWhile isWhiteSpace r2"]) (intro conjI A B C D E p(2))
qed

lemma match_time_intro:
  assumes "list_all isDigit h" "length h = 1 \<or> length h = 2" "list_all isDigit m" "length m = 2"
    "blank g" "p = ''AM'' \<or> p = ''PM''"
  shows "match_time (h @ '':'' @ m @ g @ p) = Some (h, m, p)"
proof -
  from assms(3,4) obtain m1 m2 where m: "m = [m1, m2]" "isDigit m1" "isDigit m2"
    by (cases m; cases "tl m") auto
  have nd: "\<not> isDigit (CHR '':'')" by (simp add: isDigit_def)
  have t: "takeWhile isDigit (h @ '':'' @ m @ g @ p) = h"
    using assms(1) nd by (simp add: list_all_iff takeWhile_append2)
  have d: "dropWhile isDigit (h @ '':'' @ m @ g @ p) = '':'' @ m @ g @ p"
    using assms(1) nd by (simp add: list_all_iff dropWhile_append2)
  have "\<not> isWhiteSpace (CHR ''A'')" "\<not> isWhiteSpace (CHR ''P'')"
    by (simp_all add: isWhiteSpace_def)
  then have w: "dropWhile isWhiteSpace (g @ p) = p"
    using assms(5,6) by (auto simp: blank_def list_all_iff dropWhile_append2)
  show ?thesis
    unfolding match_time_def t d using assms(2,6) m w by (auto simp: Let_def)
qed


lemma period_last:
  assumes "toUpperCase p = ''AM'' \<or> toUpperCase p = ''PM''"
  shows "p \<noteq> [] \<and> \<not> isWhiteSpace (last p)"
proof -
  from assms obtain p1 p2 where p: "p = [p1, p2]" "upperChar p2 = CHR ''M''"
    by (auto simp: toUpperCase_def)
  have "\<not> isWhiteSpace p2"
  proof
    assume w: "isWhiteSpace p2"
    then have "upperChar p2 = p2" by (simp add: upperChar_id)
    with p w have "isWhiteSpace (CHR ''M'')" by simp
    then show False by (simp add: isWhiteSpace_def)
  qed
  with p show ?thesis by simp
qed

lemma parseTimeToMinutes_SomeD:
  assumes "parseTimeToMinutes s = Some v"
  shows "\<exists>h m p. match_time (toUpperCase (trim s)) = Some (h, m, p) \<and>
           1 \<le> parseInt10 h \<and> parseInt10 h \<le> 12 \<and> parseInt10 m \<le> 59 \<and>
           v = (if p = ''PM'' \<and> parseInt10 h \<noteq> 12 then parseInt10 h + 12
                else if p = ''AM'' \<and> parseInt10 h = 12 then 0
                else parseInt10 h) * 60 + parseInt10 m"
proof (cases "match_time (toUpperCase (trim s))")
  case None
  with assms show ?thesis by (simp add: parseTimeToMinutes_def split: if_splits)
next
  case (Some t)
  obtain h m p where t: "t = (h, m, p)" by (cases t)
  from assms Some t
  have "\<not> (parseInt10 h < 1 \<or> parseInt10 h > 12 \<or> parseInt10 m < 0 \<or> parseInt10 m > 59)"
    by (auto simp: parseTimeToMinutes_def Let_def split: if_splits)
  moreover from this assms Some t
  have "v = (if p = ''PM'' \<and> parseInt10 h \<noteq> 12 then parseInt10 h + 12
                else if p = ''AM'' \<and> parseInt10 h = 12 then 0
                else parseInt10 h) * 60 + parseInt10 m"
    by (simp add: parseTimeToMinutes_def Let_def split: if_splits)
  ultimately show ?thesis using Some t by auto
qed

lemma parseTimeToMinutes_shape:
  assumes "parseTimeToMinutes s = Some v"
  shows "spec_time_text blank s v"
proof -
  from parseTimeToMinutes_SomeD[OF assms] obtain h m p where
    mt: "match_time (toUpperCase (trim s)) = Some (h, m, p)"
    and rng: "1 \<le> parseInt10 h" "parseInt10 h \<le> 12" "parseInt10 m \<le> 59"
    and v: "v = (if p = ''PM'' \<and> parseInt10 h \<noteq> 12 then parseInt10 h + 12
                 else if p = ''AM'' \<and> parseInt10 h = 12 then 0
                 else parseInt10 h) * 60 + parseInt10 m"
    by blast
  from match_time_Some[OF mt] obtain g where
    u: "toUpperCase (trim s) = h @ '':'' @ m @ g @ p"
    and dh: "list_all isDigit h" and lh: "length h = 1 \<or> length h = 2"
    and dm: "list_all isDigit m" and lm: "length m = 2"
    and bg: "blank g" and pp: "p = ''AM'' \<or> p = ''PM''"
    by blast
  from u have "map upperChar (trim s) = (h @ '':'' @ m @ g) @ p"
    by (simp add: toUpperCase_def)
  then have "\<exists>x p'. trim s = x @ p' \<and> h @ '':'' @ m @ g = map upperChar x \<and> p = map upperChar p'"
    by (simp only: map_eq_append_conv)
  then obtain x p' where t: "trim s = x @ p'" and x: "map upperChar x = h @ '':'' @ m @ g"
    and p': "map upperChar p' = p"
    by metis
  have sp: "list_all (\<lambda>c. isDigit c \<or> isWhiteSpace c \<or> c = CHR '':'') (h @ '':'' @ m @ g)"
    using dh dm bg by (auto simp: list_all_iff blank_def)
  have ux: "toUpperCase x = h @ '':'' @ m @ g"
    unfolding toUpperCase_def by (fact x)
  have xe: "x = h @ '':'' @ m @ g"
    using ux sp by (rule toUpperCase_fix)
  obtain a b where s: "s = a @ trim s @ b" and ba: "blank a" and bb: "blank b"
    using trim_decomp[of s] by blast
  have se: "s = a @ h @ '':'' @ m @ g @ p' @ b"
    using s t xe by (metis append.assoc)
  have up: "toUpperCase p' = p" using p' by (simp add: toUpperCase_def)
  have ve: "v = clock24 (parseInt10 h) (toUpperCase p' = ''PM'') * 60 + parseInt10 m"
    using v pp up by (auto simp: clock24_def)
  show ?thesis
    unfolding spec_time_text_def
    apply (rule exI[of _ a], rule exI[of _ h], rule exI[of _ m], rule exI[of _ g],
           rule exI[of _ p'], rule exI[of _ b])
    using se ba bb bg dh lh dm lm rng pp up ve by simp
qed

lemma shape_parseTimeToMinutes:
  assumes "spec_time_text blank s v"
  shows "parseTimeToMinutes s = Some v"
proof -
  from assms obtain a h m g p b where
    se: "s = a @ h @ '':'' @ m @ g @ p @ b" and ba: "blank a" and bb: "blank b" and bg: "blank g"
    and dh: "list_all isDigit h" and lh: "length h = 1 \<or> length h = 2"
    and dm: "list_all isDigit m" and lm: "length m = 2"
    and rng: "1 \<le> parseInt10 h" "parseInt10 h \<le> 12" "parseInt10 m \<le> 59"
    and pp: "toUpperCase p = ''AM'' \<or> toUpperCase p = ''PM''"
    and v: "v = clock24 (parseInt10 h) (toUpperCase p = ''PM'') * 60 + parseInt10 m"
    unfolding spec_time_text_def by blast
  define core where "core = h @ '':'' @ m @ g @ p"
  have hne: "h \<noteq> []" using lh by auto
  have "hd core = hd h" using hne by (simp add: core_def)
  moreover have "isDigit (hd h)" using dh hne by (cases h) auto
  ultimately have c1: "\<not> isWhiteSpace (hd core)" by (simp add: digit_not_space)
  have pl: "p \<noteq> []" "\<not> isWhiteSpace (last p)" using period_last[OF pp] by simp_all
  then have "last core = last p" by (simp add: core_def)
  with pl have c2: "\<not> isWhiteSpace (last core)" by simp
  have c0: "core \<noteq> []" using hne by (simp add: core_def)
  have "s = a @ core @ b" using se by (simp add: core_def)
  then have tr: "trim s = core" using trim_core[OF ba bb c0 c1 c2] by simp
  have "list_all (\<lambda>c. isDigit c \<or> isWhiteSpace c \<or> c = CHR '':'') (h @ '':'' @ m @ g)"
    using dh dm bg by (auto simp: list_all_iff blank_def)
  then have "toUpperCase (h @ '':'' @ m @ g) = h @ '':'' @ m @ g" by (rule toUpperCase_id)
  then have "toUpperCase ((h @ '':'' @ m @ g) @ p) = (h @ '':'' @ m @ g) @ toUpperCase p"
    by (simp only: toUpperCase_append)
  then have up: "toUpperCase core = h @ '':'' @ m @ g @ toUpperCase p"
    by (simp add: core_def)
  have mt: "match_time (toUpperCase core) = Some (h, m, toUpperCase p)"
    unfolding up using dh lh dm lm bg pp by (rule match_time_intro)
  have sne: "s \<noteq> []" using se hne by simp
  have nonneg: "0 \<le> parseInt10 m" by (simp add: parseInt10_def)
  show ?thesis
    using sne tr mt rng nonneg pp v
    by (auto simp: parseTimeToMinutes_def Let_def clock24_def)
qed

lemma parseTimeToMinutes_range:
  assumes "parseTimeToMinutes s = Some v"
  shows "0 \<le> v \<and> v < 1440"
proof -
  from parseTimeToMinutes_SomeD[OF assms] obtain h m p where
    rng: "1 \<le> parseInt10 h" "parseInt10 h \<le> 12" "parseInt10 m \<le> 59"
    and v: "v = (if p = ''PM'' \<and> parseInt10 h \<noteq> 12 then parseInt10 h + 12
                 else if p = ''AM'' \<and> parseInt10 h = 12 then 0
                 else parseInt10 h) * 60 + parseInt10 m"
    by blast
  have "0 \<le> parseInt10 m" by (simp add: parseInt10_def)
  with rng v show ?thesis by (auto split: if_splits)
qed

lemma calculateTimeDifferenceMinutes_range:
  "0 \<le> calculateTimeDifferenceMinutes s e \<and> calculateTimeDifferenceMinutes s e < 1440"
proof (cases "parseTimeToMinutes s")
  case None
  then show ?thesis by (simp add: calculateTimeDifferenceMinutes_def)
next
  case (Some a)
  note sa = this
  show ?thesis
  proof (cases "parseTimeToMinutes e")
    case None
    then show ?thesis using sa by (simp add: calculateTimeDifferenceMinutes_def)
  next
    case (Some b)
    from parseTimeToMinutes_range[OF sa] parseTimeToMinutes_range[OF Some]
    show ?thesis using sa Some
      by (auto simp: calculateTimeDifferenceMinutes_def Let_def)
  qed
qed

lemma getTotalBreakMinutes_nonneg: "0 \<le> getTotalBreakMinutes rows"
proof (induction rows)
  case Nil
  show ?case by simp
next
  case (Cons r rows)
  obtain s e where r: "r = (s, e)" by (cases r)
  from calculateTimeDifferenceMinutes_range[of s e] Cons show ?case
    by (simp add: r)
qed

text \<open>
  The first generation's function on two clock values within a day: the same rollover,
  and a result from 0 to 1439.
\<close>

lemma calculateTimeDifferenceMinutes_hhmm_rollover:
  assumes "s \<noteq> []" "e \<noteq> []"
    and "clockMinutes Number s = Some a" "clockMinutes Number e = Some b"
    and "0 \<le> a" "a < 1440" "0 \<le> b" "b < 1440"
  shows "calculateTimeDifferenceMinutes_hhmm Number s e
           = Some (if b - a < 0 then b - a + 1440 else b - a)"
    and "\<exists>r. calculateTimeDifferenceMinutes_hhmm Number s e = Some r \<and> 0 \<le> r \<and> r < 1440"
  using assms by (auto simp: calculateTimeDifferenceMinutes_hhmm_def)

lemma calculateTimeDifferenceMinutes_hhmm_example:
  "calculateTimeDifferenceMinutes_hhmm (\<lambda>s. Some (of_int (parseInt10 s))) ''23:00'' ''01:00''
     = Some 120 \<and>
   calculateTimeDifferenceMinutes_hhmm (\<lambda>s. Some (of_int (parseInt10 s))) [] ''01:00'' = Some 0"
  by code_simp

subsection \<open>Claim C4: what \<open>parseTimeToMinutes\<close> accepts\<close>

text \<open>
  C4 as the specification words it, with exactly one space between the minute and
  \<open>AM\<close>/\<open>PM\<close>, fails: \<open>8:31PM\<close> has no space there and is accepted as minute 1231. The
  comment at line 1151 lists \<open>"8:31PM"\<close> among the texts the pattern is meant to match.
\<close>

theorem C4_counterexample:
  "parseTimeToMinutes ''8:31PM'' = Some 1231 \<and> \<not> spec_time_shape one_space ''8:31PM''"
proof
  show "parseTimeToMinutes ''8:31PM'' = Some 1231" by code_simp
  show "\<not> spec_time_shape one_space ''8:31PM''"
  proof
    assume "spec_time_shape one_space ''8:31PM''"
    then obtain ws1 h m g p ws3 where "''8:31PM'' = ws1 @ h @ '':'' @ m @ g @ p @ ws3" "g = '' ''"
      unfolding spec_time_shape_def spec_time_text_def one_space_def by blast
    then have "CHR '' '' \<in> set (''8:31PM'')"
      by (metis append_Cons in_set_conv_decomp append.assoc)
    then show False by simp
  qed
qed

text \<open>
  C4, amended: \<open>parseTimeToMinutes\<close> accepts exactly the texts of the specification's
  shape in which any run of white space, the empty one too, stands between the minute and
  \<open>AM\<close>/\<open>PM\<close>, and gives the minute of the day: \<open>12 AM\<close> is 0 and \<open>12 PM\<close> is 720. Every
  other text is rejected with \<open>null\<close>, among them \<open>13:00 PM\<close> and 24-hour texts.
\<close>

theorem C4_parseTimeToMinutes_accepts:
  "(parseTimeToMinutes s = Some v \<longleftrightarrow> spec_time_text blank s v) \<and>
   parseTimeToMinutes ''12:00 AM'' = Some 0 \<and>
   parseTimeToMinutes ''12:00 PM'' = Some 720 \<and>
   parseTimeToMinutes ''13:00 PM'' = None \<and>
   parseTimeToMinutes ''13:00'' = None \<and>
   parseTimeToMinutes ''17:45'' = None"
proof (intro conjI)
  show "parseTimeToMinutes s = Some v \<longleftrightarrow> spec_time_text blank s v"
    using parseTimeToMinutes_shape shape_parseTimeToMinutes by blast
  show "parseTimeToMinutes ''12:00 AM'' = Some 0" by code_simp
  show "parseTimeToMinutes ''12:00 PM'' = Some 720" by code_simp
  show "parseTimeToMinutes ''13:00 PM'' = None" by code_simp
  show "parseTimeToMinutes ''13:00'' = None" by code_simp
  show "parseTimeToMinutes ''17:45'' = None" by code_simp
qed

text \<open>The amended C4 at two texts: one accepted, one rejected.\<close>

theorem C4_witness:
  "spec_time_text blank '' 8:31  pm '' 1231 \<and> \<not> spec_time_text blank ''8:31 XM'' 1231"
proof -
  have a: "parseTimeToMinutes '' 8:31  pm '' = Some 1231" by code_simp
  have b: "parseTimeToMinutes ''8:31 XM'' \<noteq> Some 1231" by code_simp
  from a b show ?thesis
    using C4_parseTimeToMinutes_accepts[of "'' 8:31  pm ''" 1231]
      C4_parseTimeToMinutes_accepts[of "''8:31 XM''" 1231]
    by blast
qed

subsection \<open>Claim C5: elapsed minutes\<close>

text \<open>
  C5: \<open>calculateTimeDifferenceMinutes\<close> is 0 when an argument is empty or does not
  parse; otherwise it is end minus start in minutes, plus 1440 when that difference is
  negative; it is never negative; from 9:00 AM to 5:00 PM it is 480 and from 11:00 PM
  to 1:00 AM it is 120.
\<close>

theorem C5_calculateTimeDifferenceMinutes:
  "(s = [] \<or> e = [] \<or> parseTimeToMinutes s = None \<or> parseTimeToMinutes e = None
      \<longrightarrow> calculateTimeDifferenceMinutes s e = 0) \<and>
   (\<forall>a b. parseTimeToMinutes s = Some a \<and> parseTimeToMinutes e = Some b
      \<longrightarrow> calculateTimeDifferenceMinutes s e = (if b - a < 0 then b - a + 1440 else b - a)) \<and>
   0 \<le> calculateTimeDifferenceMinutes s e \<and>
   calculateTimeDifferenceMinutes ''9:00 AM'' ''5:00 PM'' = 480 \<and>
   calculateTimeDifferenceMinutes ''11:00 PM'' ''1:00 AM'' = 120"
proof (intro conjI)
  show "s = [] \<or> e = [] \<or> parseTimeToMinutes s = None \<or> parseTimeToMinutes e = None
      \<longrightarrow> calculateTimeDifferenceMinutes s e = 0"
    by (auto simp: calculateTimeDifferenceMinutes_def split: option.splits)
  show "\<forall>a b. parseTimeToMinutes s = Some a \<and> parseTimeToMinutes e = Some b
      \<longrightarrow> calculateTimeDifferenceMinutes s e = (if b - a < 0 then b - a + 1440 else b - a)"
    by (auto simp: calculateTimeDifferenceMinutes_def parseTimeToMinutes_def)
  show "0 \<le> calculateTimeDifferenceMinutes s e"
    using calculateTimeDifferenceMinutes_range by blast
  show "calculateTimeDifferenceMinutes ''9:00 AM'' ''5:00 PM'' = 480" by code_simp
  show "calculateTimeDifferenceMinutes ''11:00 PM'' ''1:00 AM'' = 120" by code_simp
qed

text \<open>C5 at a shift across midnight and at a 24-hour start text.\<close>

theorem C5_witness:
  "calculateTimeDifferenceMinutes ''10:30 PM'' ''6:15 am'' = 465 \<and>
   calculateTimeDifferenceMinutes ''22:30'' ''6:15 AM'' = 0"
proof -
  have a: "parseTimeToMinutes ''10:30 PM'' = Some 1350" by code_simp
  have b: "parseTimeToMinutes ''6:15 am'' = Some 375" by code_simp
  have c: "parseTimeToMinutes ''22:30'' = None" by code_simp
  from a b c show ?thesis
    using C5_calculateTimeDifferenceMinutes[of "''10:30 PM''" "''6:15 am''"]
      C5_calculateTimeDifferenceMinutes[of "''22:30''" "''6:15 AM''"]
    by simp
qed

subsection \<open>Claim C6: working minutes\<close>

text \<open>
  C6: every record the submit handler builds has
  \<open>workingMinutes = max (shiftMinutes - breakMinutes) 0\<close>, hence at most \<open>shiftMinutes\<close>
  and at least 0, for any times and any rows of breaks.
\<close>

theorem C6_workingMinutes:
  assumes "submitHandler f = Inr e"
  shows "workingMinutes e = max (shiftMinutes e - breakMinutes e) 0 \<and>
         workingMinutes e \<le> shiftMinutes e \<and> 0 \<le> workingMinutes e"
proof -
  from assms have
    s: "shiftMinutes e = calculateTimeDifferenceMinutes (startTimeInput f) (endTimeInput f)"
    and b: "breakMinutes e = getTotalBreakMinutes (breaksContainer f)"
    and w: "workingMinutes e = max (shiftMinutes e - breakMinutes e) 0"
    by (auto simp: submitHandler_def Let_def split: if_splits)
  have "0 \<le> shiftMinutes e"
    unfolding s using calculateTimeDifferenceMinutes_range by blast
  moreover have "0 \<le> breakMinutes e"
    unfolding b by (rule getTotalBreakMinutes_nonneg)
  ultimately show ?thesis using w by simp
qed

text \<open>C6 at the example shift: 480 minutes, 45 of them breaks.\<close>

theorem C6_witness:
  "\<not> isl (submitHandler dayShiftForm) \<and>
   workingMinutes (projr (submitHandler dayShiftForm)) = 435 \<and>
   shiftMinutes (projr (submitHandler dayShiftForm)) = 480 \<and>
   breakMinutes (projr (submitHandler dayShiftForm)) = 45"
proof -
  have r: "submitHandler dayShiftForm = Inr (projr (submitHandler dayShiftForm))"
    by code_simp
  have "shiftMinutes (projr (submitHandler dayShiftForm)) = 480" by code_simp
  moreover have "breakMinutes (projr (submitHandler dayShiftForm)) = 45" by code_simp
  moreover have "\<not> isl (submitHandler dayShiftForm)" by code_simp
  ultimately show ?thesis using C6_workingMinutes[OF r] by simp
qed

subsection \<open>What the submit handler reads back\<close>

lemma toFixed2_text_zero: "toFixed2_text 0 = ''0.00''"
  by code_simp

lemma toFixed2_hundredths: "\<exists>n::int. toFixed2 x = of_int n / 100"
proof (cases "x < 0")
  case True
  then have "toFixed2 x = of_int (- \<lfloor>\<bar>x\<bar> * 100 + 1 / 2\<rfloor>) / 100"
    by (simp add: toFixed2_def Let_def)
  then show ?thesis by blast
next
  case False
  then have "toFixed2 x = of_int \<lfloor>\<bar>x\<bar> * 100 + 1 / 2\<rfloor> / 100"
    by (simp add: toFixed2_def Let_def)
  then show ?thesis by blast
qed

lemma orZero_parseFloat: "orZero (parseFloat (Some d)) = fl d"
  by (simp add: orZero_def parseFloat_def)

lemma recalculate_inputs:
  "startTimeInput (recalculate mpg f) = startTimeInput f"
  "endTimeInput (recalculate mpg f) = endTimeInput f"
  "breaksContainer (recalculate mpg f) = breaksContainer f"
  "dollarsPerGalInput (recalculate mpg f) = dollarsPerGalInput f"
  "isSettingUpEdit (recalculate mpg f) = isSettingUpEdit f"
  by (simp_all add: recalculate_def Let_def)

lemma recalculate_gallons:
  "milesStartInput f = Some a \<Longrightarrow> milesEndInput f = Some b \<Longrightarrow>
     gallonsUsedInput (recalculate mpg f) = Some (toFixed2 (fl (fl (fl b - fl a) / mpg)))"
  by (simp add: recalculate_def Let_def parseFloat_def)

lemma recalculate_gasCost:
  "milesStartInput f = Some a \<Longrightarrow> milesEndInput f = Some b \<Longrightarrow>
     gasCostEl (recalculate mpg f) =
       (case dollarsPerGalInput f of
          Some p \<Rightarrow> Some (toFixed2 (fl (fl (fl (fl b - fl a) / mpg) * fl p)))
        | None \<Rightarrow> None)"
  by (simp add: recalculate_def Let_def parseFloat_def split: option.splits)

lemma submitHandler_fields:
  assumes "submitHandler f = Inr e"
  shows "gallons e = orZero (parseFloat (gallonsUsedInput f))"
    "gasCost e = orZero (parseFloat (gasCostEl f))"
    "pricePerGal e = orZero (parseFloat (dollarsPerGalInput f))"
    "workingMinutes e = max (calculateTimeDifferenceMinutes (startTimeInput f) (endTimeInput f)
                              - getTotalBreakMinutes (breaksContainer f)) 0"
    "hourly e = (if workingMinutes e > 0
                 then fl (fl (orZero (parseFloat (netEarningsInput f)) - orZero (parseFloat (gasCostEl f)))
                          / fl (of_int (workingMinutes e) / 60))
                 else 0)"
  using assms by (auto simp: submitHandler_def Let_def split: if_splits)

lemma deriveCosts_idb_gallons:
  "milesStartInput f = Some a \<Longrightarrow> milesEndInput f = Some b \<Longrightarrow>
     costGallons (deriveCosts_idb f) = fl (toFixed2 (fl (fl (fl b - fl a) / 26)))"
  by (simp add: deriveCosts_idb_def submitted_costs_idb_def recalculate_costs_idb_def Let_def
      parseFloat_def orZero_def)

lemma deriveCosts_idb_gasCost:
  "milesStartInput f = Some a \<Longrightarrow> milesEndInput f = Some b \<Longrightarrow>
     costGasCost (deriveCosts_idb f) =
       (case dollarsPerGalInput f of
          Some p \<Rightarrow> fl (toFixed2 (fl (fl (fl (fl b - fl a) / 26) * fl p)))
        | None \<Rightarrow> 0)"
  by (simp add: deriveCosts_idb_def submitted_costs_idb_def recalculate_costs_idb_def Let_def
      parseFloat_def orZero_def split: option.splits)

subsection \<open>Claim C1: precision of the persisted record\<close>

text \<open>
  C1 as stated fails in both generations. With the odometer at 1000 and 1100 the record
  of the second generation (\<open>MPG = 30.9\<close>, price text 3.27) holds the gallons 3.24 and
  the gas cost 10.58, and the one of the first generation (divisor 26, price 3.272) the
  gallons 3.85 and the gas cost 12.58: the gallons are not the quotient of the miles, and
  the gas cost is not the product of the gallons and the price of the record. The handler
  parses the two-digit text that \<open>recalculate\<close> wrote (lines 1299, 1308, 1592, 1594; 234,
  243, 332, 334).
\<close>

theorem C1_counterexample:
  "(case deriveShift MPG (setDefaultPrice odometerForm) of
      Inl err \<Rightarrow> False
    | Inr e \<Rightarrow> milesDriven e = 100 \<and> gallons e = fl (324 / 100) \<and>
               pricePerGal e = fl (327 / 100) \<and> gasCost e = fl (1058 / 100) \<and>
               gallons e \<noteq> fl (milesDriven e / MPG) \<and>
               gasCost e \<noteq> fl (gallons e * pricePerGal e)) \<and>
   costMilesDriven (deriveCosts_idb odometerForm) = 100 \<and>
   costGallons (deriveCosts_idb odometerForm) = fl (385 / 100) \<and>
   costGallons (deriveCosts_idb odometerForm) \<noteq> fl (100 / 26) \<and>
   costGasCost (deriveCosts_idb odometerForm) = fl (1258 / 100) \<and>
   costGasCost (deriveCosts_idb odometerForm)
     \<noteq> fl (costGallons (deriveCosts_idb odometerForm) * costPricePerGal (deriveCosts_idb odometerForm))"
  by code_simp

text \<open>
  C1, amended: for parseable odometer readings \<open>a\<close> and \<open>b\<close> the persisted \<open>gallons\<close> is
  the Number read from the two-digit text of the quotient that the code computes, the
  Number \<open>(b - a) / MPG\<close> in the second generation and \<open>(b - a) / 26\<close> in the first; so
  it is the Number nearest to a multiple of \<open>1/100\<close>. The persisted \<open>gasCost\<close> is the
  Number read from the two-digit text of the product of that quotient, not yet rounded to
  two digits, and the price; it is 0 when the price does not parse. With 1000 and 1100
  the gallons are 3.85 for the divisor 26 and 3.24 for \<open>MPG\<close>. The readings and the price
  are \<open>inRange\<close>, so that no Number of the computation is infinite.
\<close>

theorem C1_deriveShift_rounds:
  assumes s: "milesStartInput f = Some a" and e: "milesEndInput f = Some b"
    and "inRange a" and "inRange b"
    and "case dollarsPerGalInput f of Some p \<Rightarrow> inRange p | None \<Rightarrow> True"
  shows "(\<forall>e. deriveShift MPG f = Inr e \<longrightarrow>
            gallons e = fl (toFixed2 (fl (fl (fl b - fl a) / MPG))) \<and>
            (\<exists>n::int. gallons e = fl (of_int n / 100)) \<and>
            gasCost e = (case dollarsPerGalInput f of
                           Some p \<Rightarrow> fl (toFixed2 (fl (fl (fl (fl b - fl a) / MPG) * fl p)))
                         | None \<Rightarrow> 0)) \<and>
         costGallons (deriveCosts_idb f) = fl (toFixed2 (fl (fl (fl b - fl a) / 26))) \<and>
         costGasCost (deriveCosts_idb f) =
           (case dollarsPerGalInput f of
              Some p \<Rightarrow> fl (toFixed2 (fl (fl (fl (fl b - fl a) / 26) * fl p)))
            | None \<Rightarrow> 0) \<and>
         fl (toFixed2 (fl (fl (fl 1100 - fl 1000) / 26))) = fl (385 / 100) \<and>
         fl (toFixed2 (fl (fl (fl 1100 - fl 1000) / MPG))) = fl (324 / 100)"
proof (intro conjI allI impI)
  fix e assume d: "deriveShift MPG f = Inr e"
  then have h: "submitHandler (recalculate MPG f) = Inr e"
    by (simp add: deriveShift_def)
  show g: "gallons e = fl (toFixed2 (fl (fl (fl b - fl a) / MPG)))"
    using submitHandler_fields(1)[OF h] recalculate_gallons[OF s e]
    by (simp add: orZero_parseFloat)
  obtain n :: int where "toFixed2 (fl (fl (fl b - fl a) / MPG)) = of_int n / 100"
    using toFixed2_hundredths by blast
  with g show "\<exists>n::int. gallons e = fl (of_int n / 100)" by auto
  show "gasCost e = (case dollarsPerGalInput f of
                           Some p \<Rightarrow> fl (toFixed2 (fl (fl (fl (fl b - fl a) / MPG) * fl p)))
                         | None \<Rightarrow> 0)"
    using submitHandler_fields(2)[OF h] recalculate_gasCost[OF s e]
    by (simp add: orZero_def parseFloat_def split: option.splits)
next
  show "costGallons (deriveCosts_idb f) = fl (toFixed2 (fl (fl (fl b - fl a) / 26)))"
    using s e by (rule deriveCosts_idb_gallons)
  show "costGasCost (deriveCosts_idb f) =
           (case dollarsPerGalInput f of
              Some p \<Rightarrow> fl (toFixed2 (fl (fl (fl (fl b - fl a) / 26) * fl p)))
            | None \<Rightarrow> 0)"
    using s e by (rule deriveCosts_idb_gasCost)
  show "fl (toFixed2 (fl (fl (fl 1100 - fl 1000) / 26))) = fl (385 / 100)" by code_simp
  show "fl (toFixed2 (fl (fl (fl 1100 - fl 1000) / MPG))) = fl (324 / 100)" by code_simp
qed

text \<open>
  The amended C1 at three forms: odometer 0 and 36.05 at the price 3.27 in the second
  generation, where the product is the Number just below 3.815 and the gas cost is 3.81;
  odometer 1000 and 1100 in the first generation; and odometer 1000 and 1013.13 in the
  first generation, where the quotient is the Number just below 0.505 and the gallons
  are 0.50.
\<close>

theorem C1_witness:
  "gallons (projr (deriveShift MPG tieForm)) = fl (117 / 100) \<and>
   gasCost (projr (deriveShift MPG tieForm)) = fl (381 / 100) \<and>
   costGallons (deriveCosts_idb odometerForm) = fl (385 / 100) \<and>
   costGasCost (deriveCosts_idb odometerForm) = fl (1258 / 100) \<and>
   costGallons (deriveCosts_idb (odometerForm\<lparr>milesEndInput := Some (101313 / 100)\<rparr>))
     = fl (50 / 100)"
proof -
  let ?g = "odometerForm\<lparr>milesEndInput := Some (101313 / 100)\<rparr>"
  have r: "deriveShift MPG tieForm = Inr (projr (deriveShift MPG tieForm))"
    by code_simp
  have a: "milesStartInput tieForm = Some 0" by code_simp
  have b: "milesEndInput tieForm = Some (3605 / 100)" by code_simp
  have p: "dollarsPerGalInput tieForm = Some (327 / 100)" by code_simp
  have ra: "inRange 0" by code_simp
  have rb: "inRange (3605 / 100)" by code_simp
  have rp: "case dollarsPerGalInput tieForm of Some p \<Rightarrow> inRange p | None \<Rightarrow> True"
    by code_simp
  have t1: "fl (toFixed2 (fl (fl (fl (3605 / 100) - fl 0) / MPG))) = fl (117 / 100)" by code_simp
  have t2: "fl (toFixed2 (fl (fl (fl (fl (3605 / 100) - fl 0) / MPG) * fl (327 / 100)))) = fl (381 / 100)"
    by code_simp
  have a': "milesStartInput odometerForm = Some 1000" by code_simp
  have b': "milesEndInput odometerForm = Some 1100" by code_simp
  have p': "dollarsPerGalInput odometerForm = Some (3272 / 1000)" by code_simp
  have ra': "inRange 1000" by code_simp
  have rb': "inRange 1100" by code_simp
  have rp': "case dollarsPerGalInput odometerForm of Some p \<Rightarrow> inRange p | None \<Rightarrow> True"
    by code_simp
  have t3: "fl (toFixed2 (fl (fl (fl (fl 1100 - fl 1000) / 26) * fl (3272 / 1000)))) = fl (1258 / 100)"
    by code_simp
  have a'': "milesStartInput ?g = Some 1000" by code_simp
  have b'': "milesEndInput ?g = Some (101313 / 100)" by code_simp
  have rb'': "inRange (101313 / 100)" by code_simp
  have rp'': "case dollarsPerGalInput ?g of Some p \<Rightarrow> inRange p | None \<Rightarrow> True"
    by code_simp
  have t4: "fl (toFixed2 (fl (fl (fl (101313 / 100) - fl 1000) / 26))) = fl (50 / 100)"
    by code_simp
  show ?thesis
    using C1_deriveShift_rounds[OF a b ra rb rp] C1_deriveShift_rounds[OF a' b' ra' rb' rp']
      C1_deriveShift_rounds[OF a'' b'' ra' rb'' rp''] r p p' t1 t2 t3 t4
    by (simp del: of_int_numeral)
qed

subsection \<open>Claim C2: the hourly rate of a shift without working time\<close>

text \<open>
  C2 as stated fails: a record with no working minutes stores the number 0 as its hourly
  rate (the \<open>: 0\<close> branch of line 1600), and its row in the entries table shows \<open>$0.00\<close>.
\<close>

theorem C2_counterexample:
  "(case deriveShift MPG odometerForm of
      Inl err \<Rightarrow> False
    | Inr e \<Rightarrow> workingMinutes e = 0 \<and> gross e = 50 \<and> hourly e = 0 \<and> hourlyCell e = ''$0.00'')"
  by code_simp

text \<open>
  C2, amended: for every record derived with \<open>workingMinutes = 0\<close>, whatever the gross
  pay and the gas cost, the stored hourly rate is the number 0 and the entries table
  shows \<open>$0.00\<close>; the live preview of the form (\<open>recalculate\<close>) shows the dash.
\<close>

theorem C2_zero_hourly:
  assumes "deriveShift mpg f = Inr e" and "workingMinutes e = 0"
  shows "hourly e = 0 \<and> hourlyCell e = ''$0.00'' \<and> hourlyRateEl (recalculate mpg f) = None"
proof (intro conjI)
  from assms(1) have h: "submitHandler (recalculate mpg f) = Inr e"
    by (simp add: deriveShift_def)
  show z: "hourly e = 0"
    using submitHandler_fields(5)[OF h] assms(2) by simp
  show "hourlyCell e = ''$0.00''"
    by (simp add: hourlyCell_def z toFixed2_text_zero)
  have "max (calculateTimeDifferenceMinutes (startTimeInput f) (endTimeInput f)
              - getTotalBreakMinutes (breaksContainer f)) 0 = 0"
    using submitHandler_fields(4)[OF h] assms(2) by (simp add: recalculate_inputs)
  then show "hourlyRateEl (recalculate mpg f) = None"
    by (simp add: recalculate_def Let_def split: option.splits)
qed

text \<open>The amended C2 at the example form, which has no times.\<close>

theorem C2_witness:
  "hourly (projr (deriveShift MPG odometerForm)) = 0 \<and>
   hourlyCell (projr (deriveShift MPG odometerForm)) = ''$0.00'' \<and>
   hourlyRateEl (recalculate MPG odometerForm) = None"
proof -
  have r: "deriveShift MPG odometerForm = Inr (projr (deriveShift MPG odometerForm))"
    by code_simp
  have w: "workingMinutes (projr (deriveShift MPG odometerForm)) = 0" by code_simp
  show ?thesis using C2_zero_hourly[OF r w] .
qed

subsection \<open>Claim C3: weeks across a year boundary\<close>

text \<open>
  C3 on the code. Monday 2024-12-30 and Wednesday 2025-01-01 lie in one week under both
  anchors (the same Saturday, the same Thursday) and get the same week number 1, but
  \<open>updateSummaries\<close> compares the calendar year of each date, not the year of the
  anchor day: on 2025-01-01 a record of 2024-12-30 is left out of the current week. The
  other way round, on Monday 2025-12-29 (week 1 of 2026) a record of 2025-01-01 counts
  as of the current week.
\<close>

theorem C3_week_split_by_calendar_year:
  "new_Date ''2024-12-30'' = Some 20087 \<and> new_Date ''2025-01-01'' = Some 20089 \<and>
   20087 + 6 - getDay 20087 = 20089 + 6 - getDay 20089 \<and>
   getWeekNumber 20087 = 1 \<and> getWeekNumber 20089 = 1 \<and>
   getFullYear (20089 + 6 - getDay 20089) = 2025 \<and>
   \<not> inCurrentWeek getWeekNumber 20089 (entryOn ''2024-12-30'') \<and>
   weekSummaryEl (updateSummaries False [entryOn ''2024-12-30''] 20089) = Amount 0 \<and>
   (let d = (if getDay 20087 = 0 then 7 else getDay 20087);
        d' = (if getDay 20089 = 0 then 7 else getDay 20089)
    in 20087 + 4 - d = 20089 + 4 - d') \<and>
   getWeekNumber_thu 20087 = 1 \<and> getWeekNumber_thu 20089 = 1 \<and>
   \<not> inCurrentWeek getWeekNumber_thu 20089 (entryOn ''2024-12-30'') \<and>
   new_Date ''2025-12-29'' = Some 20451 \<and>
   inCurrentWeek getWeekNumber 20451 (entryOn ''2025-01-01'') \<and>
   inCurrentWeek getWeekNumber_thu 20451 (entryOn ''2025-01-01'')"
  by code_simp

subsection \<open>Claim C7: the default price\<close>

text \<open>
  C7 on the code. The default reaches the record only through the text of the price
  element, which \<open>loadEntries\<close> and \<open>resetForm\<close> write with two digits: the record holds
  the Number 3.27 and a gas cost 10.58 computed from 3.27, where the Number 3.272 gives
  10.59. When the price text does not parse, the record holds the price 0 and the gas
  cost 0.
\<close>

theorem C7_default_price_rounded:
  "(case deriveShift MPG (setDefaultPrice odometerForm) of
      Inl err \<Rightarrow> False
    | Inr e \<Rightarrow> pricePerGal e = fl (327 / 100) \<and> pricePerGal e \<noteq> DEFAULT_GAS_PRICE \<and>
               gasCost e = fl (1058 / 100) \<and>
               toFixed2 (fl (fl (fl (fl 1100 - fl 1000) / MPG) * DEFAULT_GAS_PRICE)) = 1059 / 100) \<and>
   (case deriveShift MPG (odometerForm\<lparr>dollarsPerGalInput := None\<rparr>) of
      Inl err \<Rightarrow> False
    | Inr e \<Rightarrow> pricePerGal e = 0 \<and> gasCost e = 0)"
  by code_simp

subsection \<open>Claim C9: summaries and values that are no Numbers\<close>









subsection \<open>Restoring a backup\<close>

lemma importEach_all_saved:
  "(\<forall>e\<in>set ns. saveEntry e = Some e) \<Longrightarrow> importEach saveEntry es ns = (es @ ns, True)"
  by (induction ns arbitrary: es) auto

lemma importFromJson_idb_result:
  "fst (importFromJson_idb saved es (Json (Some incoming))) =
     es @ filter (\<lambda>e. date e \<notin> date ` set es) incoming"
  by (simp add: importFromJson_idb_def Let_def)

lemma importFromJson_result:
  assumes "\<forall>e\<in>set incoming. date e \<notin> date ` set es \<longrightarrow> saveEntry e = Some e"
  shows "fst (importFromJson saveEntry es (Json (Some incoming))) =
     es @ filter (\<lambda>e. date e \<notin> date ` set es) incoming"
proof -
  let ?new = "filter (\<lambda>e. date e \<notin> date ` set es) incoming"
  from assms have "\<forall>e\<in>set ?new. saveEntry e = Some e" by simp
  then have "importEach saveEntry es ?new = (es @ ?new, True)"
    by (rule importEach_all_saved)
  then show ?thesis by (simp add: importFromJson_def Let_def)
qed

lemma import_nothing_new:
  assumes "\<forall>e\<in>set incoming. date e \<in> date ` set es"
  shows "importFromJson saveEntry es (Json (Some incoming)) = (es, NothingNew)"
    and "importFromJson_idb saved es (Json (Some incoming)) = (es, NothingNew)"
proof -
  from assms have "filter (\<lambda>e. date e \<notin> date ` set es) incoming = []"
    by (simp add: filter_empty_conv)
  then show "importFromJson saveEntry es (Json (Some incoming)) = (es, NothingNew)"
    and "importFromJson_idb saved es (Json (Some incoming)) = (es, NothingNew)"
    by (simp_all add: importFromJson_def importFromJson_idb_def Let_def)
qed

subsection \<open>Claim C8: restore skips the dates already present\<close>

text \<open>
  C8: a restore appends exactly the incoming records whose date is not in the collection
  and skips the others. \<open>exportToJson\<close> writes no file for the empty collection only; for
  any other collection it writes the file that holds the collection, restoring that file
  into the collection changes nothing, and restoring it into an empty collection gives
  the exported records. For the second generation the appended records are as stated
  when \<open>saveEntry\<close> stores each of them and leaves it as it is; the first generation
  appends before it saves.
\<close>

theorem C8_restore_skips_existing_dates:
  "fst (importFromJson_idb saved es (Json (Some incoming))) =
     es @ filter (\<lambda>e. date e \<notin> date ` set es) incoming \<and>
   ((\<forall>e\<in>set incoming. date e \<notin> date ` set es \<longrightarrow> saveEntry e = Some e) \<longrightarrow>
    fst (importFromJson saveEntry es (Json (Some incoming))) =
      es @ filter (\<lambda>e. date e \<notin> date ` set es) incoming) \<and>
   (case exportToJson t es of
      None \<Rightarrow> es = []
    | Some b \<Rightarrow>
        b = \<lparr>exportDate = t, version = ''1.0'', entries = es\<rparr> \<and>
        importFromJson saveEntry es (readBackup b) = (es, NothingNew) \<and>
        importFromJson_idb saved es (readBackup b) = (es, NothingNew) \<and>
        fst (importFromJson_idb saved [] (readBackup b)) = es \<and>
        ((\<forall>e\<in>set es. saveEntry e = Some e) \<longrightarrow>
           fst (importFromJson saveEntry [] (readBackup b)) = es))"
proof (intro conjI impI)
  show "fst (importFromJson_idb saved es (Json (Some incoming))) =
     es @ filter (\<lambda>e. date e \<notin> date ` set es) incoming"
    by (rule importFromJson_idb_result)
next
  assume "\<forall>e\<in>set incoming. date e \<notin> date ` set es \<longrightarrow> saveEntry e = Some e"
  then show "fst (importFromJson saveEntry es (Json (Some incoming))) =
      es @ filter (\<lambda>e. date e \<notin> date ` set es) incoming"
    by (rule importFromJson_result)
next
  show "case exportToJson t es of
      None \<Rightarrow> es = []
    | Some b \<Rightarrow>
        b = \<lparr>exportDate = t, version = ''1.0'', entries = es\<rparr> \<and>
        importFromJson saveEntry es (readBackup b) = (es, NothingNew) \<and>
        importFromJson_idb saved es (readBackup b) = (es, NothingNew) \<and>
        fst (importFromJson_idb saved [] (readBackup b)) = es \<and>
        ((\<forall>e\<in>set es. saveEntry e = Some e) \<longrightarrow>
           fst (importFromJson saveEntry [] (readBackup b)) = es)"
  proof (cases "exportToJson t es")
    case None
    then show ?thesis by (simp add: exportToJson_def split: if_splits)
  next
    case (Some b)
    then have b: "b = \<lparr>exportDate = t, version = ''1.0'', entries = es\<rparr>"
      by (auto simp: exportToJson_def split: if_splits)
    have r: "readBackup b = Json (Some es)" by (simp add: b readBackup_def)
    have all: "\<forall>e\<in>set es. date e \<in> date ` set es" by simp
    have 1: "importFromJson saveEntry es (readBackup b) = (es, NothingNew)"
      unfolding r using all by (rule import_nothing_new(1))
    have 2: "importFromJson_idb saved es (readBackup b) = (es, NothingNew)"
      unfolding r using all by (rule import_nothing_new(2))
    have 3: "fst (importFromJson_idb saved [] (readBackup b)) = es"
      by (simp add: r importFromJson_idb_result)
    have 4: "(\<forall>e\<in>set es. saveEntry e = Some e) \<longrightarrow>
           fst (importFromJson saveEntry [] (readBackup b)) = es"
    proof
      assume a: "\<forall>e\<in>set es. saveEntry e = Some e"
      then have "\<forall>e\<in>set es. date e \<notin> date ` set ([] :: entry list) \<longrightarrow> saveEntry e = Some e"
        by simp
      then have "fst (importFromJson saveEntry [] (Json (Some es))) =
          [] @ filter (\<lambda>e. date e \<notin> date ` set ([] :: entry list)) es"
        by (rule importFromJson_result)
      then show "fst (importFromJson saveEntry [] (readBackup b)) = es"
        by (simp add: r)
    qed
    show ?thesis using Some b 1 2 3 4 by simp
  qed
qed

text \<open>
  C8 at a collection of two records and a storage that keeps every record: the export
  is the file of the two records, restoring it into the collection adds nothing,
  restoring it into the empty collection gives the two records, and a file with one
  date of the collection and one new date adds the record of the new date.
\<close>

theorem C8_witness:
  "exportToJson ''2025-01-05T00:00:00.000Z'' [entryOn ''2025-01-01'', entryOn ''2025-01-02'']
     = Some \<lparr>exportDate = ''2025-01-05T00:00:00.000Z'', version = ''1.0'',
             entries = [entryOn ''2025-01-01'', entryOn ''2025-01-02'']\<rparr> \<and>
   importFromJson Some [entryOn ''2025-01-01'', entryOn ''2025-01-02'']
     (readBackup (the (exportToJson ''2025-01-05T00:00:00.000Z''
                        [entryOn ''2025-01-01'', entryOn ''2025-01-02''])))
   = ([entryOn ''2025-01-01'', entryOn ''2025-01-02''], NothingNew) \<and>
   fst (importFromJson Some []
     (readBackup (the (exportToJson ''2025-01-05T00:00:00.000Z''
                        [entryOn ''2025-01-01'', entryOn ''2025-01-02'']))))
   = [entryOn ''2025-01-01'', entryOn ''2025-01-02''] \<and>
   importFromJson Some [entryOn ''2025-01-01'', entryOn ''2025-01-02'']
     (Json (Some [entryOn ''2025-01-02'', entryOn ''2025-01-03'']))
   = ([entryOn ''2025-01-01'', entryOn ''2025-01-02'', entryOn ''2025-01-03''], Imported 1)"
proof -
  let ?es = "[entryOn ''2025-01-01'', entryOn ''2025-01-02'']"
  let ?t = "''2025-01-05T00:00:00.000Z''"
  let ?b = "\<lparr>exportDate = ?t, version = ''1.0'', entries = ?es\<rparr>"
  have x: "exportToJson ?t ?es = Some ?b" by code_simp
  have s: "\<forall>e\<in>set ?es. Some e = Some e" by simp
  have 1: "importFromJson Some ?es (Json (Some [entryOn ''2025-01-02'', entryOn ''2025-01-03'']))
   = ([entryOn ''2025-01-01'', entryOn ''2025-01-02'', entryOn ''2025-01-03''], Imported 1)"
    by code_simp
  from C8_restore_skips_existing_dates[of True ?es "[]" Some ?t] s
  have "importFromJson Some ?es (readBackup ?b) = (?es, NothingNew)"
    and "fst (importFromJson Some [] (readBackup ?b)) = ?es"
    unfolding x by simp_all
  with 1 x show ?thesis by simp
qed

subsection \<open>Claim C10: several incoming records of one new date\<close>

text \<open>
  C10: the set of existing dates is taken from the collection before the restore and is
  not extended while records are accepted. For a date the collection does not have, all
  incoming records of that date are appended, in their order, so one restore can leave
  several records on one date.
\<close>

theorem C10_same_date_imports_all_kept:
  assumes "d \<notin> date ` set es"
    and "\<forall>e\<in>set incoming. date e \<notin> date ` set es \<longrightarrow> saveEntry e = Some e"
  shows "filter (\<lambda>e. date e = d) (fst (importFromJson saveEntry es (Json (Some incoming))))
           = filter (\<lambda>e. date e = d) incoming \<and>
         filter (\<lambda>e. date e = d) (fst (importFromJson_idb saved es (Json (Some incoming))))
           = filter (\<lambda>e. date e = d) incoming"
proof -
  have no: "filter (\<lambda>e. date e = d) es = []"
    using assms(1) by (auto simp: filter_empty_conv)
  have sel: "filter (\<lambda>x. date x \<notin> date ` set es \<and> date x = d) incoming
             = filter (\<lambda>e. date e = d) incoming"
  proof (rule filter_cong[OF refl])
    fix x assume "x \<in> set incoming"
    show "(date x \<notin> date ` set es \<and> date x = d) = (date x = d)"
      using assms(1) by auto
  qed
  show ?thesis
    unfolding importFromJson_result[OF assms(2)] importFromJson_idb_result
    by (simp add: no sel)
qed

text \<open>C10 at two incoming records of 2025-01-02: both are kept.\<close>

theorem C10_witness:
  "fst (importFromJson Some [entryOn ''2025-01-01'']
     (Json (Some [entryOn ''2025-01-02'', entryOn ''2025-01-01'',
                  (entryOn ''2025-01-02'')\<lparr>gross := 70\<rparr>])))
   = [entryOn ''2025-01-01'', entryOn ''2025-01-02'', (entryOn ''2025-01-02'')\<lparr>gross := 70\<rparr>] \<and>
   filter (\<lambda>e. date e = ''2025-01-02'') (fst (importFromJson Some [entryOn ''2025-01-01'']
     (Json (Some [entryOn ''2025-01-02'', entryOn ''2025-01-01'',
                  (entryOn ''2025-01-02'')\<lparr>gross := 70\<rparr>]))))
   = [entryOn ''2025-01-02'', (entryOn ''2025-01-02'')\<lparr>gross := 70\<rparr>]"
proof -
  let ?es = "[entryOn ''2025-01-01'']"
  let ?inc = "[entryOn ''2025-01-02'', entryOn ''2025-01-01'', (entryOn ''2025-01-02'')\<lparr>gross := 70\<rparr>]"
  have d: "''2025-01-02'' \<notin> date ` set ?es" by (simp add: entryOn_def)
  have s: "\<forall>e\<in>set ?inc. date e \<notin> date ` set ?es \<longrightarrow> Some e = Some e" by simp
  have f: "filter (\<lambda>e. date e = ''2025-01-02'') ?inc
           = [entryOn ''2025-01-02'', (entryOn ''2025-01-02'')\<lparr>gross := 70\<rparr>]"
    by (simp add: entryOn_def)
  have 1: "fst (importFromJson Some ?es (Json (Some ?inc)))
   = [entryOn ''2025-01-01'', entryOn ''2025-01-02'', (entryOn ''2025-01-02'')\<lparr>gross := 70\<rparr>]"
    by code_simp
  from C10_same_date_imports_all_kept[OF d s, of True] f 1 show ?thesis by simp
qed

end
